theory Spec2Isabelle
  imports Main "HOL-Library.Sublist" "HOL-Library.AList"
begin

section \<open>Values, errors and the environment of the validator script\<close>

text \<open>
  The values that Python's \<^verbatim>\<open>json.load\<close> produces: \<^verbatim>\<open>None\<close>, \<^verbatim>\<open>bool\<close>, \<^verbatim>\<open>int\<close>,
  \<^verbatim>\<open>float\<close>, \<^verbatim>\<open>str\<close>, \<^verbatim>\<open>list\<close> and \<^verbatim>\<open>dict\<close> with string keys. No code of the repository
  looks inside a float, so floats are an abstract type. A dict is the list of its items
  in insertion order; the decoder gives every key once.
\<close>

typedecl pyfloat

datatype json =
    JNull
  | JBool bool
  | JInt int
  | JFloat pyfloat
  | JString string
  | JArray "json list"
  | JObject "(string \<times> json) list"

text \<open>
  The exceptions that can travel through the script. \<open>JSONDecodeError\<close> carries the
  decoder's message (what \<^verbatim>\<open>str(e)\<close> gives); \<open>OSError\<close> and \<open>UnicodeDecodeError\<close>
  are what \<^verbatim>\<open>open\<close> and \<^verbatim>\<open>read\<close> can raise on a path that exists.
\<close>

datatype py_error =
    JSONDecodeError string
  | TypeError
  | KeyError string
  | OSError
  | UnicodeDecodeError
  | RecursionError

text \<open>
  The file system as the script sees it: \<open>None\<close> where \<^verbatim>\<open>os.path.exists\<close> is false,
  otherwise what opening and reading the path as text gives (its content, or the
  exception raised, as for a directory).
\<close>

type_synonym filesystem = "string \<Rightarrow> (py_error + string) option"

text \<open>
  \<^verbatim>\<open>json.load\<close> belongs to Python's standard library, not to the repository: it is a
  parameter of the model, giving the decoded value or the exception raised.
\<close>

type_synonym decoder = "string \<Rightarrow> py_error + json"

text \<open>A call of the script: the lines it printed, then the exception raised or the value returned.\<close>

type_synonym 'a run = "string list \<times> (py_error + 'a)"

subsection \<open>Printing\<close>

text \<open>Strings are UTF-8 bytes; the two marks are U+274C and U+2705.\<close>

definition cross_mark :: string where
  "cross_mark = [CHR 0xE2, CHR 0x9D, CHR 0x8C]"

definition check_mark :: string where
  "check_mark = [CHR 0xE2, CHR 0x9C, CHR 0x85]"

definition fail_line :: "string \<Rightarrow> string" where
  "fail_line msg = ''  '' @ cross_mark @ '' '' @ msg"

definition ok_line :: "string \<Rightarrow> string" where
  "ok_line msg = ''  '' @ check_mark @ '' '' @ msg"

text \<open>\<^verbatim>\<open>str(n)\<close> for a non-negative integer: its decimal digits.\<close>

fun str_nat :: "nat \<Rightarrow> string" where
  "str_nat n = (if n < 10 then [''0123456789'' ! n]
     else str_nat (n div 10) @ [''0123456789'' ! (n mod 10)])"

declare str_nat.simps [simp del]

subsection \<open>Python's operators on decoded values\<close>

text \<open>
  \<^verbatim>\<open>key in x\<close> for a string \<open>key\<close>: a key of a dict, an element of a list, a substring
  of a string; \<^verbatim>\<open>TypeError\<close> on a number, a bool or \<^verbatim>\<open>None\<close>.
\<close>

fun py_in :: "string \<Rightarrow> json \<Rightarrow> py_error + bool" where
  "py_in key (JObject items) = Inr (key \<in> set (map fst items))"
| "py_in key (JArray xs) = Inr (JString key \<in> set xs)"
| "py_in key (JString s) = Inr (sublist key s)"
| "py_in key JNull = Inl TypeError"
| "py_in key (JBool b) = Inl TypeError"
| "py_in key (JInt n) = Inl TypeError"
| "py_in key (JFloat x) = Inl TypeError"

text \<open>
  \<^verbatim>\<open>x[key]\<close> for a string \<open>key\<close>: the value stored in a dict (\<^verbatim>\<open>KeyError\<close> when
  absent), \<^verbatim>\<open>TypeError\<close> on every other value.
\<close>

fun py_getitem :: "json \<Rightarrow> string \<Rightarrow> py_error + json" where
  "py_getitem (JObject items) key =
     (case map_of items key of None \<Rightarrow> Inl (KeyError key) | Some v \<Rightarrow> Inr v)"
| "py_getitem JNull key = Inl TypeError"
| "py_getitem (JBool b) key = Inl TypeError"
| "py_getitem (JInt n) key = Inl TypeError"
| "py_getitem (JFloat x) key = Inl TypeError"
| "py_getitem (JString s) key = Inl TypeError"
| "py_getitem (JArray xs) key = Inl TypeError"

section \<open>validate\_component.py\<close>

subsection \<open>The four text checks\<close>

text \<open>
  Each check prints its heading, returns \<open>False\<close> on a path that does not exist, reads
  the file, and returns \<open>False\<close> at the first required text that is not a substring of
  the content.
\<close>

definition validate_python_file :: "filesystem \<Rightarrow> string \<Rightarrow> bool run" where
  "validate_python_file fs filepath =
     (let out = [''Validating Python file: '' @ filepath] in
      case fs filepath of
        None \<Rightarrow> (out @ [fail_line (''File not found: '' @ filepath)], Inr False)
      | Some (Inl e) \<Rightarrow> (out, Inl e)
      | Some (Inr content) \<Rightarrow>
          (case find (\<lambda>imp. \<not> sublist imp content)
                  [''esphome.codegen'', ''esphome.config_validation'',
                   ''from esphome import automation''] of
             Some imp \<Rightarrow> (out @ [fail_line (''Missing import: '' @ imp)], Inr False)
           | None \<Rightarrow>
          (case find (\<lambda>elem. \<not> sublist elem content) [''CONFIG_SCHEMA'', ''to_code''] of
             Some elem \<Rightarrow>
               (out @ [fail_line (''Missing required element: '' @ elem)], Inr False)
           | None \<Rightarrow> (out @ [ok_line ''Python file structure is valid''], Inr True))))"

definition validate_cpp_header :: "filesystem \<Rightarrow> string \<Rightarrow> bool run" where
  "validate_cpp_header fs filepath =
     (let out = [''Validating C++ header: '' @ filepath] in
      case fs filepath of
        None \<Rightarrow> (out @ [fail_line (''File not found: '' @ filepath)], Inr False)
      | Some (Inl e) \<Rightarrow> (out, Inl e)
      | Some (Inr content) \<Rightarrow>
          (case find (\<lambda>inc. \<not> sublist inc content)
                  [''esphome/core/component.h'', ''esphome/core/automation.h''] of
             Some inc \<Rightarrow> (out @ [fail_line (''Missing include: '' @ inc)], Inr False)
           | None \<Rightarrow>
               if \<not> sublist ''class JsonAutomationComponent : public Component'' content
               then (out @ [fail_line ''Missing main component class''], Inr False)
               else (out @ [ok_line ''C++ header structure is valid''], Inr True)))"

definition validate_cpp_implementation :: "filesystem \<Rightarrow> string \<Rightarrow> bool run" where
  "validate_cpp_implementation fs filepath =
     (let out = [''Validating C++ implementation: '' @ filepath] in
      case fs filepath of
        None \<Rightarrow> (out @ [fail_line (''File not found: '' @ filepath)], Inr False)
      | Some (Inl e) \<Rightarrow> (out, Inl e)
      | Some (Inr content) \<Rightarrow>
          (case find (\<lambda>method. \<not> sublist method content)
                  [''setup()'', ''loop()'', ''dump_config()'', ''parse_json_automations''] of
             Some method \<Rightarrow> (out @ [fail_line (''Missing method: '' @ method)], Inr False)
           | None \<Rightarrow> (out @ [ok_line ''C++ implementation structure is valid''], Inr True)))"

definition validate_example_yaml :: "filesystem \<Rightarrow> string \<Rightarrow> bool run" where
  "validate_example_yaml fs filepath =
     (let out = [''Validating example YAML: '' @ filepath] in
      case fs filepath of
        None \<Rightarrow> (out @ [fail_line (''File not found: '' @ filepath)], Inr False)
      | Some (Inl e) \<Rightarrow> (out, Inl e)
      | Some (Inr content) \<Rightarrow>
          (case find (\<lambda>section. \<not> sublist section content)
                  [''esphome:'', ''json_automation:'', ''external_components:''] of
             Some section \<Rightarrow> (out @ [fail_line (''Missing section: '' @ section)], Inr False)
           | None \<Rightarrow> (out @ [ok_line ''Example YAML structure is valid''], Inr True)))"

subsection \<open>The JSON check\<close>

text \<open>
  Lines 115 to 121: the two tests on the decoded root. They raise, or print a message
  and return \<open>False\<close>, or let the loop over \<^verbatim>\<open>data['automations']\<close> start.
\<close>

datatype root_outcome =
    RootRaises py_error
  | RootRejected string
  | RootAccepted "json list"

definition check_root :: "json \<Rightarrow> root_outcome" where
  "check_root data =
     (case py_in ''automations'' data of
        Inl e \<Rightarrow> RootRaises e
      | Inr present \<Rightarrow>
          if \<not> present then RootRejected ''Missing 'automations' key''
          else (case py_getitem data ''automations'' of
                  Inl e \<Rightarrow> RootRaises e
                | Inr (JArray automations) \<Rightarrow> RootAccepted automations
                | Inr other \<Rightarrow> RootRejected '''automations' must be an array''))"

text \<open>
  Lines 124 to 128, the inner loop on one element: the first of the fields that is
  not \<^verbatim>\<open>in\<close> the element, if any; the test itself raises on a number, a bool or
  \<^verbatim>\<open>None\<close>.
\<close>

fun missing_field :: "string list \<Rightarrow> json \<Rightarrow> py_error + string option" where
  "missing_field [] automation = Inr None"
| "missing_field (field # fields) automation =
     (case py_in field automation of
        Inl e \<Rightarrow> Inl e
      | Inr present \<Rightarrow>
          if \<not> present then Inr (Some field) else missing_field fields automation)"

definition required_fields :: "string list" where
  "required_fields = [''id'', ''trigger'', ''actions'']"

text \<open>
  Line 123, the loop over \<^verbatim>\<open>enumerate(data['automations'])\<close> from index \<open>i\<close>: the
  index and field of the first failed test, or \<open>None\<close> when the loop runs to its end.
\<close>

fun check_automations :: "nat \<Rightarrow> json list \<Rightarrow> py_error + (nat \<times> string) option" where
  "check_automations i [] = Inr None"
| "check_automations i (automation # rest) =
     (case missing_field required_fields automation of
        Inl e \<Rightarrow> Inl e
      | Inr (Some field) \<Rightarrow> Inr (Some (i, field))
      | Inr None \<Rightarrow> check_automations (Suc i) rest)"

text \<open>Lines 115 to 131: everything in the \<^verbatim>\<open>try\<close> block after the decoding.\<close>

definition validate_data :: "json \<Rightarrow> bool run" where
  "validate_data data =
     (case check_root data of
        RootRaises e \<Rightarrow> ([], Inl e)
      | RootRejected msg \<Rightarrow> ([fail_line msg], Inr False)
      | RootAccepted automations \<Rightarrow>
          (case check_automations 0 automations of
             Inl e \<Rightarrow> ([], Inl e)
           | Inr (Some (i, field)) \<Rightarrow>
               ([fail_line (''Automation '' @ str_nat i @ '' missing field: '' @ field)],
                Inr False)
           | Inr None \<Rightarrow>
               ([ok_line (''Example JSON structure is valid (''
                          @ str_nat (length automations) @ '' automations)'')],
                Inr True)))"

text \<open>The \<^verbatim>\<open>try\<close> block: open and read the file, decode it, check the decoded value.\<close>

definition try_block :: "decoder \<Rightarrow> py_error + string \<Rightarrow> bool run" where
  "try_block json_load opened =
     (case opened of
        Inl e \<Rightarrow> ([], Inl e)
      | Inr text \<Rightarrow>
          (case json_load text of
             Inl e \<Rightarrow> ([], Inl e)
           | Inr data \<Rightarrow> validate_data data))"

text \<open>
  The whole function: only \<^verbatim>\<open>json.JSONDecodeError\<close> is caught; every other
  exception leaves the function.
\<close>

definition validate_example_json :: "decoder \<Rightarrow> filesystem \<Rightarrow> string \<Rightarrow> bool run" where
  "validate_example_json json_load fs filepath =
     (let out = [''Validating example JSON: '' @ filepath] in
      case fs filepath of
        None \<Rightarrow> (out @ [fail_line (''File not found: '' @ filepath)], Inr False)
      | Some opened \<Rightarrow>
          (case try_block json_load opened of
             (printed, Inl (JSONDecodeError e)) \<Rightarrow>
               (out @ printed @ [fail_line (''Invalid JSON: '' @ e)], Inr False)
           | (printed, result) \<Rightarrow> (out @ printed, result)))"

subsection \<open>main\<close>

text \<open>
  The five statements \<^verbatim>\<open>all_valid &= check(path); print()\<close> in order: an exception
  ends the run, a returned \<open>False\<close> does not.
\<close>

fun run_checks :: "bool \<Rightarrow> bool run list \<Rightarrow> bool run" where
  "run_checks all_valid [] = ([], Inr all_valid)"
| "run_checks all_valid ((out, Inl e) # rest) = (out, Inl e)"
| "run_checks all_valid ((out, Inr valid) # rest) =
     (case run_checks (all_valid \<and> valid) rest of
        (out', result) \<Rightarrow> (out @ [''''] @ out', result))"

definition rule_line :: string where
  "rule_line = replicate 60 CHR ''=''"

definition checks :: "decoder \<Rightarrow> filesystem \<Rightarrow> bool run list" where
  "checks json_load fs =
     [validate_python_file fs ''components/json_automation/__init__.py'',
      validate_cpp_header fs ''components/json_automation/json_automation.h'',
      validate_cpp_implementation fs ''components/json_automation/json_automation.cpp'',
      validate_example_yaml fs ''example.yaml'',
      validate_example_json json_load fs ''example_automation.json'']"

definition success_lines :: "string list" where
  "success_lines =
     [check_mark @ '' All validation checks passed!'',
      '''',
      ''Component is ready to use. To use this component:'',
      ''1. Copy the 'components' folder to your ESPHome project'',
      ''2. Reference it in your YAML with 'external_components'' @ [CHR 0x27],
      ''3. Configure the 'json_automation' component'',
      ''4. Compile and upload to your ESP device'']"

definition main :: "decoder \<Rightarrow> filesystem \<Rightarrow> int run" where
  "main json_load fs =
     (let banner = [rule_line, ''ESPHome JSON Automation Component Validator'', rule_line, ''''] in
      case run_checks True (checks json_load fs) of
        (out, Inl e) \<Rightarrow> (banner @ out, Inl e)
      | (out, Inr all_valid) \<Rightarrow>
          if all_valid then (banner @ out @ [rule_line] @ success_lines, Inr 0)
          else (banner @ out @ [rule_line, cross_mark @ '' Some validation checks failed''],
                Inr 1))"

section \<open>components/json\_automation/\_\_init\_\_.py\<close>

subsection \<open>The C++ classes the module declares\<close>

text \<open>
  The C++ types the module names: \<^verbatim>\<open>cg.std_string\<close>, \<^verbatim>\<open>cg.Component\<close>,
  \<^verbatim>\<open>automation.Action\<close>, \<^verbatim>\<open>automation.Trigger.template(...)\<close> with its template
  arguments, and a class made by \<^verbatim>\<open>json_automation_ns.class_(name, *parents)\<close>, with
  its namespace, its name and its parents.
\<close>

datatype cpp_type =
    StdString
  | Component
  | AutomationAction
  | AutomationTrigger "cpp_type list"
  | Class string string "cpp_type list"

definition JsonAutomationComponent :: cpp_type where
  "JsonAutomationComponent = Class ''json_automation'' ''JsonAutomationComponent'' [Component]"

definition AutomationLoadedTrigger :: cpp_type where
  "AutomationLoadedTrigger =
     Class ''json_automation'' ''AutomationLoadedTrigger'' [AutomationTrigger [StdString]]"

definition JsonErrorTrigger :: cpp_type where
  "JsonErrorTrigger =
     Class ''json_automation'' ''JsonErrorTrigger'' [AutomationTrigger [StdString]]"

definition LoadJsonAction :: cpp_type where
  "LoadJsonAction = Class ''json_automation'' ''LoadJsonAction'' [AutomationAction]"

definition SaveJsonAction :: cpp_type where
  "SaveJsonAction = Class ''json_automation'' ''SaveJsonAction'' [AutomationAction]"

definition ExecuteAutomationAction :: cpp_type where
  "ExecuteAutomationAction =
     Class ''json_automation'' ''ExecuteAutomationAction'' [AutomationAction]"

text \<open>Lines 11 to 23: the six \<^verbatim>\<open>class_\<close> declarations, in their order.\<close>

definition declared_classes :: "cpp_type list" where
  "declared_classes =
     [JsonAutomationComponent, AutomationLoadedTrigger, JsonErrorTrigger,
      LoadJsonAction, SaveJsonAction, ExecuteAutomationAction]"

text \<open>The template arguments of a class whose one parent is a trigger template.\<close>

fun trigger_arguments :: "cpp_type \<Rightarrow> cpp_type list option" where
  "trigger_arguments (Class namespace name [AutomationTrigger arguments]) = Some arguments"
| "trigger_arguments other = None"

subsection \<open>Configuration keys and the schema\<close>

text \<open>
  \<^verbatim>\<open>CONF_ID\<close> and \<^verbatim>\<open>CONF_TRIGGER_ID\<close> are imported from \<^verbatim>\<open>esphome.const\<close>; the other
  three keys are lines 6 to 8.
\<close>

definition CONF_ID :: string where
  "CONF_ID = ''id''"

definition CONF_TRIGGER_ID :: string where
  "CONF_TRIGGER_ID = ''trigger_id''"

definition CONF_JSON_DATA :: string where
  "CONF_JSON_DATA = ''json_data''"

definition CONF_ON_AUTOMATION_LOADED :: string where
  "CONF_ON_AUTOMATION_LOADED = ''on_automation_loaded''"

definition CONF_ON_JSON_ERROR :: string where
  "CONF_ON_JSON_ERROR = ''on_json_error''"

text \<open>
  A schema is the dict given to \<^verbatim>\<open>cv.Schema\<close>, kept as data: each entry has the marker
  of its key (\<^verbatim>\<open>cv.GenerateID\<close>, \<^verbatim>\<open>cv.Optional\<close>, \<^verbatim>\<open>cv.Required\<close>), the key and the
  validator of the value (\<^verbatim>\<open>cv.declare_id\<close>, \<^verbatim>\<open>cv.string\<close>,
  \<^verbatim>\<open>automation.validate_automation\<close> with its extra schema).
\<close>

datatype marker = GenerateID | Optional | Required

datatype validator =
    DeclareId cpp_type
  | CvString
  | ValidateAutomation "(marker \<times> string \<times> validator) list"

type_synonym schema = "(marker \<times> string \<times> validator) list"

definition schema_keys :: "schema \<Rightarrow> string list" where
  "schema_keys entries = map (\<lambda>(m, key, v). key) entries"

text \<open>Lines 26 to 39: the dict literal of \<^verbatim>\<open>CONFIG_SCHEMA\<close>.\<close>

definition component_entries :: schema where
  "component_entries =
     [(GenerateID, CONF_ID, DeclareId JsonAutomationComponent),
      (Optional, CONF_JSON_DATA, CvString),
      (Optional, CONF_ON_AUTOMATION_LOADED,
         ValidateAutomation [(GenerateID, CONF_TRIGGER_ID, DeclareId AutomationLoadedTrigger)]),
      (Optional, CONF_ON_JSON_ERROR,
         ValidateAutomation [(GenerateID, CONF_TRIGGER_ID, DeclareId JsonErrorTrigger)])]"

text \<open>
  \<^verbatim>\<open>base.extend(other)\<close>: the entries of \<open>other\<close> are added, and replace those of
  \<open>base\<close> with the same key.
\<close>

definition extend_schema :: "schema \<Rightarrow> schema \<Rightarrow> schema" where
  "extend_schema base other =
     filter (\<lambda>(m, key, v). key \<notin> set (schema_keys other)) base @ other"

text \<open>
  Line 40. \<^verbatim>\<open>cv.COMPONENT_SCHEMA\<close> is a constant of the esphome library, not of the
  repository: it is a parameter.
\<close>

definition CONFIG_SCHEMA :: "schema \<Rightarrow> schema" where
  "CONFIG_SCHEMA COMPONENT_SCHEMA = extend_schema component_entries COMPONENT_SCHEMA"

text \<open>
  What the markers mean for the keys of a configuration, the values left aside: a key
  the schema does not declare is refused, and so is the absence of a key under
  \<open>Required\<close>; a key under \<open>Optional\<close> or \<open>GenerateID\<close> may be absent.
\<close>

definition accepts_keys :: "schema \<Rightarrow> string list \<Rightarrow> bool" where
  "accepts_keys entries keys \<longleftrightarrow>
     list_all (\<lambda>key. key \<in> set (schema_keys entries)) keys
     \<and> list_all (\<lambda>(m, key, v). m \<noteq> Required \<or> key \<in> set keys) entries"

subsection \<open>to\_code\<close>

text \<open>
  The values of a validated configuration: an \<^verbatim>\<open>ID\<close> with its name and declared type,
  a string, a float, a list, a dict. The configuration itself is a dict, the list of its
  items.
\<close>

datatype cfg =
    CfgID string cpp_type
  | CfgStr string
  | CfgFloat pyfloat
  | CfgList "cfg list"
  | CfgDict "(string \<times> cfg) list"

text \<open>\<^verbatim>\<open>conf[key]\<close> for a string key: only a dict can be subscripted with a string.\<close>

fun cfg_getitem :: "cfg \<Rightarrow> string \<Rightarrow> py_error + cfg" where
  "cfg_getitem (CfgDict items) key =
     (case map_of items key of None \<Rightarrow> Inl (KeyError key) | Some v \<Rightarrow> Inr v)"
| "cfg_getitem (CfgID name type) key = Inl TypeError"
| "cfg_getitem (CfgStr s) key = Inl TypeError"
| "cfg_getitem (CfgFloat x) key = Inl TypeError"
| "cfg_getitem (CfgList xs) key = Inl TypeError"

text \<open>
  What \<^verbatim>\<open>for conf in value\<close> runs through: the elements of a list, the keys of a dict,
  the characters of a string; the other values are not iterable.
\<close>

fun cfg_iter :: "cfg \<Rightarrow> py_error + cfg list" where
  "cfg_iter (CfgList xs) = Inr xs"
| "cfg_iter (CfgDict items) = Inr (map (\<lambda>(key, v). CfgStr key) items)"
| "cfg_iter (CfgStr s) = Inr (map (\<lambda>c. CfgStr [c]) s)"
| "cfg_iter (CfgID name type) = Inl TypeError"
| "cfg_iter (CfgFloat x) = Inl TypeError"

text \<open>
  The calls \<open>to_code\<close> makes into the code generator, which are all it does. A variable
  is named by the \<^verbatim>\<open>ID\<close> it was created from.
  \<^item> \<open>NewPvariable id args\<close>: \<^verbatim>\<open>cg.new_Pvariable(id, *args)\<close>;
  \<^item> \<open>RegisterComponent var config\<close>: \<^verbatim>\<open>cg.register_component(var, config)\<close>;
  \<^item> \<open>SetJsonData var value\<close>: \<^verbatim>\<open>cg.add(var.set_json_data(value))\<close>;
  \<^item> \<open>BuildAutomation trigger args conf\<close>: \<^verbatim>\<open>automation.build_automation(trigger, args, conf)\<close>.
\<close>

datatype call =
    NewPvariable cfg "cfg list"
  | RegisterComponent cfg "(string \<times> cfg) list"
  | SetJsonData cfg cfg
  | BuildAutomation cfg "(cpp_type \<times> string) list" cfg

text \<open>
  The body of the two loops (lines 50 to 56) over the confs left: the calls made, then
  the exception that stopped the loop, if any.
\<close>

fun build_triggers :: "cfg \<Rightarrow> string \<Rightarrow> cfg list \<Rightarrow> call list \<times> py_error option" where
  "build_triggers var argument [] = ([], None)"
| "build_triggers var argument (conf # rest) =
     (case cfg_getitem conf CONF_TRIGGER_ID of
        Inl e \<Rightarrow> ([], Some e)
      | Inr trigger_id \<Rightarrow>
          (case build_triggers var argument rest of
             (calls, raised) \<Rightarrow>
               ([NewPvariable trigger_id [var],
                 BuildAutomation trigger_id [(StdString, argument)] conf] @ calls, raised)))"

text \<open>\<^verbatim>\<open>config.get(key, fallback)\<close>.\<close>

definition config_get :: "(string \<times> cfg) list \<Rightarrow> string \<Rightarrow> cfg \<Rightarrow> cfg" where
  "config_get config key fallback =
     (case map_of config key of None \<Rightarrow> fallback | Some v \<Rightarrow> v)"

text \<open>One \<^verbatim>\<open>for conf in confs\<close> loop.\<close>

definition for_triggers :: "cfg \<Rightarrow> string \<Rightarrow> cfg \<Rightarrow> call list \<times> py_error option" where
  "for_triggers var argument confs =
     (case cfg_iter confs of
        Inl e \<Rightarrow> ([], Some e)
      | Inr cs \<Rightarrow> build_triggers var argument cs)"

text \<open>Lines 43 to 56: the calls made, then the exception raised, if any.\<close>

definition to_code :: "(string \<times> cfg) list \<Rightarrow> call list \<times> py_error option" where
  "to_code config =
     (case map_of config CONF_ID of
        None \<Rightarrow> ([], Some (KeyError CONF_ID))
      | Some var \<Rightarrow>
          (let registered = [NewPvariable var [], RegisterComponent var config];
               assigned = (case map_of config CONF_JSON_DATA of
                             None \<Rightarrow> []
                           | Some json_data \<Rightarrow> [SetJsonData var json_data])
           in case for_triggers var ''data''
                     (config_get config CONF_ON_AUTOMATION_LOADED (CfgList [])) of
                (loaded, Some e) \<Rightarrow> (registered @ assigned @ loaded, Some e)
              | (loaded, None) \<Rightarrow>
                  (case for_triggers var ''error''
                          (config_get config CONF_ON_JSON_ERROR (CfgList [])) of
                     (failed, raised) \<Rightarrow>
                       (registered @ assigned @ loaded @ failed, raised))))"

text \<open>The conf is one of those a loop of \<open>to_code\<close> runs through under the key.\<close>

definition listed :: "(string \<times> cfg) list \<Rightarrow> string \<Rightarrow> cfg \<Rightarrow> bool" where
  "listed config key conf \<longleftrightarrow>
     (case cfg_iter (config_get config key (CfgList [])) of
        Inl e \<Rightarrow> False
      | Inr confs \<Rightarrow> conf \<in> set confs)"

section \<open>The engine behind the component\<close>

text \<open>
  The component's C++ implementation (\<^verbatim>\<open>json_automation.h\<close>, \<^verbatim>\<open>json_automation.cpp\<close>
  with \<^verbatim>\<open>parse_json_automations\<close>) is named by the validator script and declared by
  the Python module, and is not among the sources. Its loader, table, events and
  serializer are modelled from the specification, sections 3, 4.3, 4.4 and 6. The decoded
  tree is the type \<open>json\<close> above; numbers are \<open>JInt\<close> and \<open>JFloat\<close>.
\<close>

text \<open>
  Modelled from the spec: the \<open>Action\<close> of the C++ core, "one executable step": its
  kind and its parameters, a mapping from string keys to JSON values kept in their
  order.
\<close>

record action =
  kind :: string
  parameters :: "(string \<times> json) list"

text \<open>
  Modelled from the spec: the \<open>Automation\<close> of the C++ core, "a named, ordered script":
  id, trigger of any JSON shape, ordered actions.
\<close>

record automation =
  automation_id :: string
  trigger :: json
  actions :: "action list"

text \<open>
  Modelled from the spec: the \<open>Automation Table\<close> of the C++ core, "a mapping from id
  to Automation, ids unique", as the list of its entries in the order the serializer
  walks them.
\<close>

type_synonym table = "(string \<times> automation) list"

text \<open>
  Modelled from the spec: the three kinds of \<open>LoadError\<close> of the C++ loader (4.3 steps
  1, 2 and 4): a syntax error with the adapter's message, a root without an
  \<open>automations\<close> array, a malformed automation with its index and the field.
\<close>

datatype load_error =
    SyntaxError string
  | MalformedRoot
  | MalformedAutomation nat string

text \<open>
  Modelled from the spec: the message of a \<open>LoadError\<close> of the C++ loader. The spec
  fixes the text of the second; of the others it says what they name.
\<close>

definition error_message :: "load_error \<Rightarrow> string" where
  "error_message err =
     (case err of
        SyntaxError msg \<Rightarrow> ''JSON syntax error: '' @ msg
      | MalformedRoot \<Rightarrow> ''missing or malformed 'automations' array''
      | MalformedAutomation i field \<Rightarrow>
          ''automation '' @ str_nat i @ '': missing or malformed field '' @ field)"

text \<open>
  Modelled from the spec: the C++ loader on one element of \<open>actions\<close> (4.3 step 4):
  "verify it is an object containing a non-empty kind/type indicator field; all other
  fields become parameters verbatim". \<open>None\<close> is the violation.
\<close>

definition load_action :: "json \<Rightarrow> action option" where
  "load_action element =
     (case element of
        JObject members \<Rightarrow>
          (case map_of members ''kind'' of
             Some (JString k) \<Rightarrow>
               if k = [] then None
               else Some \<lparr>kind = k,
                          parameters = filter (\<lambda>(key, value). key \<noteq> ''kind'') members\<rparr>
           | _ \<Rightarrow> None)
      | _ \<Rightarrow> None)"

text \<open>
  Modelled from the spec: the C++ loader on the elements of \<open>actions\<close>, in order; one
  violation fails them all.
\<close>

fun load_actions :: "json list \<Rightarrow> action list option" where
  "load_actions [] = Some []"
| "load_actions (element # rest) =
     (case load_action element of
        None \<Rightarrow> None
      | Some a \<Rightarrow> (case load_actions rest of None \<Rightarrow> None | Some as \<Rightarrow> Some (a # as)))"

text \<open>
  Modelled from the spec: the C++ loader on one element of \<open>automations\<close> (4.3 step
  4): "an object containing required string field id, and a trigger value (any shape,
  default to null if absent), and field actions which, if present, must be an array; if
  absent, treat as empty". \<open>Inl\<close> names the missing or malformed field.
\<close>

definition load_automation :: "json \<Rightarrow> string + automation" where
  "load_automation element =
     (case element of
        JObject members \<Rightarrow>
          (case map_of members ''id'' of
             Some (JString ident) \<Rightarrow>
               (case map_of members ''actions'' of
                  None \<Rightarrow>
                    Inr \<lparr>automation_id = ident,
                         trigger = (case map_of members ''trigger'' of
                                      None \<Rightarrow> JNull | Some t \<Rightarrow> t),
                         actions = []\<rparr>
                | Some (JArray elements) \<Rightarrow>
                    (case load_actions elements of
                       None \<Rightarrow> Inl ''kind''
                     | Some as \<Rightarrow>
                         Inr \<lparr>automation_id = ident,
                              trigger = (case map_of members ''trigger'' of
                                           None \<Rightarrow> JNull | Some t \<Rightarrow> t),
                              actions = as\<rparr>)
                | Some other \<Rightarrow> Inl ''actions'')
           | _ \<Rightarrow> Inl ''id'')
      | _ \<Rightarrow> Inl ''id'')"

text \<open>
  Modelled from the spec: the loop of the C++ loader over the array (4.3 step 4), from
  index \<open>i\<close> and with the new table built so far: the first violation aborts; an
  element is inserted under its id, and replaces an earlier one with the same id.
\<close>

fun load_automations :: "nat \<Rightarrow> json list \<Rightarrow> table \<Rightarrow> load_error + table" where
  "load_automations i [] new_table = Inr new_table"
| "load_automations i (element # rest) new_table =
     (case load_automation element of
        Inl field \<Rightarrow> Inl (MalformedAutomation i field)
      | Inr a \<Rightarrow> load_automations (Suc i) rest (AList.update (automation_id a) a new_table))"

text \<open>
  Modelled from the spec: steps 2 to 4 of the C++ loader on the decoded document: the
  root is an object whose key \<open>automations\<close> holds an array, and the new table is built
  from an empty one.
\<close>

definition build_table :: "json \<Rightarrow> load_error + table" where
  "build_table document =
     (case document of
        JObject root \<Rightarrow>
          (case map_of root ''automations'' of
             Some (JArray elements) \<Rightarrow> load_automations 0 elements []
           | _ \<Rightarrow> Inl MalformedRoot)
      | _ \<Rightarrow> Inl MalformedRoot)"

text \<open>
  Modelled from the spec: the lifecycle events of the C++ core (section 6):
  \<open>automation_loaded(raw_text)\<close> and \<open>json_error(message)\<close>.
\<close>

datatype event = AutomationLoaded string | JsonError string

text \<open>
  Modelled from the spec: the state of the C++ engine: its live table, and the events
  it has sent to the host so far.
\<close>

record engine =
  live_table :: table
  events :: "event list"

text \<open>Modelled from the spec: the \<open>LoadResult\<close> of the C++ loader (4.3).\<close>

datatype load_result = Loaded nat | LoadError string

text \<open>
  Modelled from the spec: the Decoder Adapter of the C++ core (4.1),
  \<open>decode(text) -> DecodedValue | DecodeError\<close>. It wraps a JSON library, which is a
  parameter; \<open>Inl\<close> carries the message of the \<open>DecodeError\<close>.
\<close>

type_synonym decode_adapter = "string \<Rightarrow> string + json"

text \<open>
  Modelled from the spec: \<open>load\<close> of the C++ core (4.3): on an error the live table
  stays and \<open>json_error\<close> is sent with the message; on success the new table replaces
  the live one, \<open>automation_loaded\<close> is sent with the raw text, and the size of the new
  table is returned.
\<close>

definition load :: "decode_adapter \<Rightarrow> string \<Rightarrow> engine \<Rightarrow> load_result \<times> engine" where
  "load decode text eng =
     (case (case decode text of
              Inl msg \<Rightarrow> Inl (SyntaxError msg)
            | Inr document \<Rightarrow> build_table document) of
        Inl err \<Rightarrow>
          (LoadError (error_message err),
           eng\<lparr>events := events eng @ [JsonError (error_message err)]\<rparr>)
      | Inr new_table \<Rightarrow>
          (Loaded (length new_table),
           \<lparr>live_table = new_table, events = events eng @ [AutomationLoaded text]\<rparr>))"

text \<open>
  Modelled from the spec: the C++ serializer on one action (4.4): "its kind plus its
  parameters fields merged at the same object level".
\<close>

definition serialize_action :: "action \<Rightarrow> json" where
  "serialize_action a = JObject ((''kind'', JString (kind a)) # parameters a)"

text \<open>
  Modelled from the spec: the C++ serializer on one automation (4.4): "each automation
  rendered as id, trigger, actions".
\<close>

definition serialize_automation :: "automation \<Rightarrow> json" where
  "serialize_automation a =
     JObject [(''id'', JString (automation_id a)),
              (''trigger'', trigger a),
              (''actions'', JArray (map serialize_action (actions a)))]"

text \<open>
  Modelled from the spec: the document the C++ serializer produces for a table (4.4),
  with the top-level key \<open>automations\<close>.
\<close>

definition serialize_table :: "table \<Rightarrow> json" where
  "serialize_table t =
     JObject [(''automations'', JArray (map (\<lambda>(ident, a). serialize_automation a) t))]"

text \<open>
  Modelled from the spec: \<open>serialize(table) -> string\<close> of the C++ core (4.4); the
  printer of the JSON library is a parameter.
\<close>

definition serialize :: "(json \<Rightarrow> string) \<Rightarrow> table \<Rightarrow> string" where
  "serialize encode t = encode (serialize_table t)"

subsection \<open>What every loaded table satisfies\<close>

text \<open>
  The invariants the proofs below carry: a loaded action has a kind and no parameter
  named \<open>kind\<close>; a loaded table has each id once, on the automation that bears it.
\<close>

definition action_ok :: "action \<Rightarrow> bool" where
  "action_ok a \<longleftrightarrow> kind a \<noteq> [] \<and> ''kind'' \<notin> set (map fst (parameters a))"

definition automation_ok :: "automation \<Rightarrow> bool" where
  "automation_ok a \<longleftrightarrow> list_all action_ok (actions a)"

definition table_ok :: "table \<Rightarrow> bool" where
  "table_ok t \<longleftrightarrow> distinct (map fst t)
     \<and> list_all (\<lambda>(ident, a). automation_id a = ident \<and> automation_ok a) t"

section \<open>Properties of the validator script\<close>

subsection \<open>Missing files\<close>

text \<open>
  C10. Each of the five checks, called on a path that does not exist, prints its
  heading and the line that the file was not found, and returns \<open>False\<close>; it raises
  nothing.
\<close>

theorem missing_file_returns_False:
  assumes "fs filepath = None"
  shows "validate_python_file fs filepath =
           ([''Validating Python file: '' @ filepath,
             fail_line (''File not found: '' @ filepath)], Inr False)
       \<and> validate_cpp_header fs filepath =
           ([''Validating C++ header: '' @ filepath,
             fail_line (''File not found: '' @ filepath)], Inr False)
       \<and> validate_cpp_implementation fs filepath =
           ([''Validating C++ implementation: '' @ filepath,
             fail_line (''File not found: '' @ filepath)], Inr False)
       \<and> validate_example_yaml fs filepath =
           ([''Validating example YAML: '' @ filepath,
             fail_line (''File not found: '' @ filepath)], Inr False)
       \<and> validate_example_json json_load fs filepath =
           ([''Validating example JSON: '' @ filepath,
             fail_line (''File not found: '' @ filepath)], Inr False)"
  using assms
  by (simp add: validate_python_file_def validate_cpp_header_def
      validate_cpp_implementation_def validate_example_yaml_def validate_example_json_def)

theorem missing_file_returns_False_witness:
  "(Map.empty :: filesystem) ''example.yaml'' = None
   \<and> validate_example_yaml Map.empty ''example.yaml'' =
       ([''Validating example YAML: example.yaml'',
         fail_line ''File not found: example.yaml''], Inr False)
   \<and> validate_example_json (\<lambda>text. Inl RecursionError) Map.empty ''example.yaml'' =
       ([''Validating example JSON: example.yaml'',
         fail_line ''File not found: example.yaml''], Inr False)"
  using missing_file_returns_False [of Map.empty "''example.yaml''" "\<lambda>text. Inl RecursionError"]
  by simp

subsection \<open>The JSON check\<close>

text \<open>
  C5. On a file whose text is the document with an empty \<open>automations\<close> array, which
  the decoder turns into the dict with that one key and the empty list, the JSON check
  returns \<open>True\<close> and reports zero automations.
\<close>

theorem empty_automations_valid:
  assumes "fs filepath = Some (Inr ''{\"automations\": []}'')"
      and "json_load ''{\"automations\": []}'' = Inr (JObject [(''automations'', JArray [])])"
  shows "validate_example_json json_load fs filepath =
           ([''Validating example JSON: '' @ filepath,
             ok_line ''Example JSON structure is valid (0 automations)''], Inr True)"
  using assms
  by (simp add: validate_example_json_def try_block_def validate_data_def check_root_def
      str_nat.simps)

theorem empty_automations_valid_witness:
  "validate_example_json (\<lambda>text. Inr (JObject [(''automations'', JArray [])]))
       (\<lambda>path. Some (Inr ''{\"automations\": []}'')) ''example_automation.json'' =
     ([''Validating example JSON: example_automation.json'',
       ok_line ''Example JSON structure is valid (0 automations)''], Inr True)"
  using empty_automations_valid [of "\<lambda>path. Some (Inr ''{\"automations\": []}'')"
      "''example_automation.json''" "\<lambda>text. Inr (JObject [(''automations'', JArray [])])"]
  by simp



lemma check_root_object:
  "check_root (JObject items) =
     (case map_of items ''automations'' of
        None \<Rightarrow> RootRejected ''Missing 'automations' key''
      | Some (JArray automations) \<Rightarrow> RootAccepted automations
      | Some other \<Rightarrow> RootRejected '''automations' must be an array'')"
proof (cases "map_of items ''automations''")
  case None
  then have "''automations'' \<notin> set (map fst items)"
    by (simp add: map_of_eq_None_iff)
  with None show ?thesis by (simp add: check_root_def)
next
  case (Some v)
  then have "''automations'' \<in> set (map fst items)"
    by (metis map_of_eq_None_iff option.distinct(1) set_map)
  with Some show ?thesis by (cases v) (simp_all add: check_root_def)
qed

lemma check_root_accepted:
  assumes "check_root data = RootAccepted automations"
  shows "\<exists>items. data = JObject items \<and> map_of items ''automations'' = Some (JArray automations)"
proof (cases data)
  case (JObject items)
  with assms show ?thesis
    by (auto simp: check_root_object split: option.splits json.splits)
qed (use assms in \<open>auto simp: check_root_def split: if_splits\<close>)

text \<open>
  C3. When the decoded root is an object, the JSON check returns \<open>False\<close> if the key
  \<open>automations\<close> is absent, and if its value is not an array; and the loop over the
  automations starts exactly when the root is an object whose key \<open>automations\<close> holds
  an array.
\<close>

theorem automations_key_required:
  assumes "fs filepath = Some (Inr text)"
      and "json_load text = Inr data"
  shows "(data = JObject items \<and> map_of items ''automations'' = None \<longrightarrow>
            validate_example_json json_load fs filepath =
              ([''Validating example JSON: '' @ filepath,
                fail_line ''Missing 'automations' key''], Inr False))
       \<and> (data = JObject items \<and> map_of items ''automations'' = Some v
            \<and> (\<forall>automations. v \<noteq> JArray automations) \<longrightarrow>
            validate_example_json json_load fs filepath =
              ([''Validating example JSON: '' @ filepath,
                fail_line '''automations' must be an array''], Inr False))
       \<and> (check_root data = RootAccepted automations \<longleftrightarrow>
            (\<exists>root. data = JObject root
               \<and> map_of root ''automations'' = Some (JArray automations)))"
proof (intro conjI impI)
  assume "data = JObject items \<and> map_of items ''automations'' = None"
  with assms show "validate_example_json json_load fs filepath =
      ([''Validating example JSON: '' @ filepath,
        fail_line ''Missing 'automations' key''], Inr False)"
    by (simp add: validate_example_json_def try_block_def validate_data_def check_root_object)
next
  assume a: "data = JObject items \<and> map_of items ''automations'' = Some v
            \<and> (\<forall>automations. v \<noteq> JArray automations)"
  then have "check_root data = RootRejected '''automations' must be an array''"
    by (cases v) (simp_all add: check_root_object)
  with assms show "validate_example_json json_load fs filepath =
      ([''Validating example JSON: '' @ filepath,
        fail_line '''automations' must be an array''], Inr False)"
    by (simp add: validate_example_json_def try_block_def validate_data_def)
next
  show "check_root data = RootAccepted automations \<longleftrightarrow>
            (\<exists>root. data = JObject root
               \<and> map_of root ''automations'' = Some (JArray automations))"
    by (auto simp: check_root_object dest: check_root_accepted)
qed

theorem automations_key_required_witness:
  "validate_example_json (\<lambda>text. Inr (JObject [(''version'', JInt 1)]))
       (\<lambda>path. Some (Inr ''{\"version\": 1}'')) ''example_automation.json'' =
     ([''Validating example JSON: example_automation.json'',
       fail_line ''Missing 'automations' key''], Inr False)
   \<and> validate_example_json (\<lambda>text. Inr (JObject [(''automations'', JObject [])]))
       (\<lambda>path. Some (Inr ''{\"automations\": {}}'')) ''example_automation.json'' =
     ([''Validating example JSON: example_automation.json'',
       fail_line '''automations' must be an array''], Inr False)
   \<and> check_root (JObject [(''automations'', JArray [JNull])]) = RootAccepted [JNull]"
  using automations_key_required [of "\<lambda>path. Some (Inr ''{\"version\": 1}'')"
      "''example_automation.json''" "''{\"version\": 1}''"
      "\<lambda>text. Inr (JObject [(''version'', JInt 1)])" "JObject [(''version'', JInt 1)]"
      "[(''version'', JInt 1)]" JNull "[]"]
    automations_key_required [of "\<lambda>path. Some (Inr ''{\"automations\": {}}'')"
      "''example_automation.json''" "''{\"automations\": {}}''"
      "\<lambda>text. Inr (JObject [(''automations'', JObject [])])"
      "JObject [(''automations'', JObject [])]"
      "[(''automations'', JObject [])]" "JObject []" "[]"]
    automations_key_required [of "\<lambda>path. Some (Inr ''{\"automations\": [null]}'')"
      "''example_automation.json''" "''{\"automations\": [null]}''"
      "\<lambda>text. Inr (JObject [(''automations'', JArray [JNull])])"
      "JObject [(''automations'', JArray [JNull])]"
      "[]" "JNull" "[JNull]"]
  by simp

subsection \<open>The loop over the automations\<close>

lemma missing_field_object:
  "missing_field names (JObject items) = Inr (find (\<lambda>f. f \<notin> set (map fst items)) names)"
  by (induction names) auto


lemma check_automations_first:
  assumes "k < length automations"
      and "\<forall>j<k. missing_field required_fields (automations ! j) = Inr None"
      and "missing_field required_fields (automations ! k) = Inr (Some field)"
  shows "check_automations i automations = Inr (Some (i + k, field))"
  using assms
proof (induction automations arbitrary: i k)
  case Nil
  then show ?case by simp
next
  case (Cons a rest)
  show ?case
  proof (cases k)
    case 0
    with Cons.prems show ?thesis by simp
  next
    case (Suc k')
    from Cons.prems Suc have head: "missing_field required_fields a = Inr None"
      by auto
    from Cons.prems Suc have "k' < length rest"
      and "\<forall>j<k'. missing_field required_fields (rest ! j) = Inr None"
      and "missing_field required_fields (rest ! k') = Inr (Some field)"
      by auto
    then have "check_automations (Suc i) rest = Inr (Some (Suc i + k', field))"
      by (rule Cons.IH)
    with head Suc show ?thesis by simp
  qed
qed




text \<open>
  C2, as the code has it. An element whose \<open>id\<close> is a number and whose \<open>actions\<close> is a
  string has the three keys, and the check returns \<open>True\<close>: the shape of a field is not
  looked at.
\<close>

theorem wrong_shape_accepted:
  "validate_data (JObject [(''automations'',
      JArray [JObject [(''id'', JInt 5), (''trigger'', JNull), (''actions'', JString ''x'')]])]) =
     ([ok_line ''Example JSON structure is valid (1 automations)''], Inr True)"
  by (simp add: validate_data_def check_root_def required_fields_def str_nat.simps)

text \<open>
  C2, amended. When the element at index \<open>k\<close> is an object that lacks one of the keys
  \<open>id\<close>, \<open>trigger\<close>, \<open>actions\<close>, and every element before it is an object with the three
  keys, the check returns \<open>False\<close> and its one message names \<open>k\<close> and the first of the
  three keys that the element lacks. The check returns a truth value only: it builds no
  table.
\<close>

theorem first_missing_field_reported:
  assumes "map_of root ''automations'' = Some (JArray automations)"
      and "k < length automations"
      and "\<forall>j<k. \<exists>items. automations ! j = JObject items
              \<and> set required_fields \<subseteq> set (map fst items)"
      and "automations ! k = JObject items"
      and "find (\<lambda>field. field \<notin> set (map fst items)) required_fields = Some field"
  shows "validate_data (JObject root) =
           ([fail_line (''Automation '' @ str_nat k @ '' missing field: '' @ field)],
            Inr False)"
proof -
  have before: "\<forall>j<k. missing_field required_fields (automations ! j) = Inr None"
  proof (intro allI impI)
    fix j assume "j < k"
    with assms(3) obtain its where "automations ! j = JObject its"
      "set required_fields \<subseteq> set (map fst its)" by blast
    then show "missing_field required_fields (automations ! j) = Inr None"
      by (auto simp: missing_field_object find_None_iff)
  qed
  have "missing_field required_fields (automations ! k) = Inr (Some field)"
    using assms(4,5) by (simp add: missing_field_object)
  with before assms(2) have "check_automations 0 automations = Inr (Some (0 + k, field))"
    by (intro check_automations_first) auto
  with assms(1) show ?thesis
    by (simp add: validate_data_def check_root_object)
qed

theorem first_missing_field_reported_witness:
  "validate_data (JObject [(''automations'',
      JArray [JObject [(''id'', JString ''a''), (''trigger'', JNull), (''actions'', JArray [])],
              JObject [(''id'', JString ''b''), (''actions'', JArray [])]])]) =
     ([fail_line ''Automation 1 missing field: trigger''], Inr False)"
  using first_missing_field_reported [of
      "[(''automations'',
      JArray [JObject [(''id'', JString ''a''), (''trigger'', JNull), (''actions'', JArray [])],
              JObject [(''id'', JString ''b''), (''actions'', JArray [])]])]"
      "[JObject [(''id'', JString ''a''), (''trigger'', JNull), (''actions'', JArray [])],
              JObject [(''id'', JString ''b''), (''actions'', JArray [])]]"
      1 "[(''id'', JString ''b''), (''actions'', JArray [])]" "''trigger''"]
  by (simp add: required_fields_def str_nat.simps less_Suc_eq)

subsection \<open>main\<close>

lemma run_checks_returns:
  assumes "\<forall>c \<in> set cs. \<exists>valid. snd c = Inr valid"
  shows "run_checks all_valid cs =
           (concat (map (\<lambda>c. fst c @ ['''']) cs),
            Inr (all_valid \<and> (\<forall>c \<in> set cs. snd c = Inr True)))"
  using assms
proof (induction all_valid cs rule: run_checks.induct)
  case (1 all_valid)
  then show ?case by simp
next
  case (2 all_valid out e rest)
  then show ?case by simp
next
  case (3 all_valid out valid rest)
  then show ?case by auto
qed

lemma run_checks_True_iff:
  "snd (run_checks all_valid cs) = Inr True \<longleftrightarrow>
     all_valid \<and> (\<forall>c \<in> set cs. snd c = Inr True)"
proof (induction all_valid cs rule: run_checks.induct)
  case (1 all_valid)
  then show ?case by simp
next
  case (2 all_valid out e rest)
  then show ?case by simp
next
  case (3 all_valid out valid rest)
  then show ?case by (auto split: prod.splits)
qed

text \<open>
  C8. \<open>main\<close> returns 0 exactly when each of the five checks returns \<open>True\<close>. When
  every check returns, \<open>True\<close> or \<open>False\<close>, the output of \<open>main\<close> holds the output of
  all five in their order, each followed by an empty line, whatever the earlier ones
  returned; the exit code is then 0 if all returned \<open>True\<close> and 1 otherwise.
\<close>

theorem main_runs_all_checks:
  "(snd (main json_load fs) = Inr 0 \<longleftrightarrow>
      (\<forall>c \<in> set (checks json_load fs). snd c = Inr True))
   \<and> ((\<forall>c \<in> set (checks json_load fs). \<exists>valid. snd c = Inr valid) \<longrightarrow>
        fst (main json_load fs) =
           [rule_line, ''ESPHome JSON Automation Component Validator'', rule_line, '''']
           @ concat (map (\<lambda>c. fst c @ ['''']) (checks json_load fs))
           @ [rule_line]
           @ (if \<forall>c \<in> set (checks json_load fs). snd c = Inr True then success_lines
              else [cross_mark @ '' Some validation checks failed''])
        \<and> snd (main json_load fs) =
            Inr (if \<forall>c \<in> set (checks json_load fs). snd c = Inr True then 0 else 1))
   \<and> length (checks json_load fs) = 5"
proof (intro conjI impI)
  show "snd (main json_load fs) = Inr 0 \<longleftrightarrow>
      (\<forall>c \<in> set (checks json_load fs). snd c = Inr True)"
    using run_checks_True_iff [of True "checks json_load fs"]
    by (auto simp: main_def Let_def split: prod.splits sum.splits if_splits)
next
  assume ret: "\<forall>c \<in> set (checks json_load fs). \<exists>valid. snd c = Inr valid"
  note rc = run_checks_returns [OF ret, of True]
  show "fst (main json_load fs) =
           [rule_line, ''ESPHome JSON Automation Component Validator'', rule_line, '''']
           @ concat (map (\<lambda>c. fst c @ ['''']) (checks json_load fs))
           @ [rule_line]
           @ (if \<forall>c \<in> set (checks json_load fs). snd c = Inr True then success_lines
              else [cross_mark @ '' Some validation checks failed''])"
    by (simp add: main_def Let_def rc)
  show "snd (main json_load fs) =
            Inr (if \<forall>c \<in> set (checks json_load fs). snd c = Inr True then 0 else 1)"
    by (simp add: main_def Let_def rc)
next
  show "length (checks json_load fs) = 5"
    by (simp add: checks_def)
qed

lemma only_yaml_checks:
  "checks (\<lambda>text. Inl (JSONDecodeError ''unused''))
      (\<lambda>path. if path = ''example.yaml''
               then Some (Inr ''esphome: json_automation: external_components:'')
               else None) =
     [([''Validating Python file: components/json_automation/__init__.py'',
        fail_line ''File not found: components/json_automation/__init__.py''], Inr False),
      ([''Validating C++ header: components/json_automation/json_automation.h'',
        fail_line ''File not found: components/json_automation/json_automation.h''], Inr False),
      ([''Validating C++ implementation: components/json_automation/json_automation.cpp'',
        fail_line ''File not found: components/json_automation/json_automation.cpp''],
       Inr False),
      ([''Validating example YAML: example.yaml'',
        ok_line ''Example YAML structure is valid''], Inr True),
      ([''Validating example JSON: example_automation.json'',
        fail_line ''File not found: example_automation.json''], Inr False)]"
  by (simp add: checks_def validate_python_file_def validate_cpp_header_def
      validate_cpp_implementation_def validate_example_yaml_def validate_example_json_def
      sublist_code)

theorem main_runs_all_checks_witness:
  "snd (main (\<lambda>text. Inl (JSONDecodeError ''unused''))
      (\<lambda>path. if path = ''example.yaml''
               then Some (Inr ''esphome: json_automation: external_components:'')
               else None)) = Inr 1
   \<and> fst (main (\<lambda>text. Inl (JSONDecodeError ''unused''))
      (\<lambda>path. if path = ''example.yaml''
               then Some (Inr ''esphome: json_automation: external_components:'')
               else None)) =
     [rule_line, ''ESPHome JSON Automation Component Validator'', rule_line, '''',
      ''Validating Python file: components/json_automation/__init__.py'',
      fail_line ''File not found: components/json_automation/__init__.py'', '''',
      ''Validating C++ header: components/json_automation/json_automation.h'',
      fail_line ''File not found: components/json_automation/json_automation.h'', '''',
      ''Validating C++ implementation: components/json_automation/json_automation.cpp'',
      fail_line ''File not found: components/json_automation/json_automation.cpp'', '''',
      ''Validating example YAML: example.yaml'',
      ok_line ''Example YAML structure is valid'', '''',
      ''Validating example JSON: example_automation.json'',
      fail_line ''File not found: example_automation.json'', '''',
      rule_line, cross_mark @ '' Some validation checks failed'']"
  using main_runs_all_checks [of "\<lambda>text. Inl (JSONDecodeError ''unused'')"
      "\<lambda>path. if path = ''example.yaml''
               then Some (Inr ''esphome: json_automation: external_components:'')
               else None"]
  by (auto simp: only_yaml_checks)

section \<open>Properties of the component's code generation\<close>

lemma build_triggers_calls:
  "c \<in> set (fst (build_triggers var argument confs)) \<Longrightarrow>
     (\<exists>t. c = NewPvariable t [var])
     \<or> (\<exists>t conf. c = BuildAutomation t [(StdString, argument)] conf)"
  by (induction confs arbitrary: c) (auto split: sum.splits prod.splits)

lemma for_triggers_no_set:
  "SetJsonData v d \<notin> set (fst (for_triggers var argument confs))"
  by (auto simp: for_triggers_def split: sum.splits dest: build_triggers_calls)

lemma build_triggers_sound:
  "BuildAutomation t args conf \<in> set (fst (build_triggers var argument confs)) \<Longrightarrow>
     args = [(StdString, argument)] \<and> conf \<in> set confs
     \<and> cfg_getitem conf CONF_TRIGGER_ID = Inr t"
  by (induction confs) (auto split: sum.splits prod.splits)

lemma build_triggers_complete:
  "snd (build_triggers var argument confs) = None \<Longrightarrow> conf \<in> set confs \<Longrightarrow>
     \<exists>t. BuildAutomation t [(StdString, argument)] conf
           \<in> set (fst (build_triggers var argument confs))"
  by (induction confs) (auto split: sum.splits prod.splits)

lemma for_triggers_sound:
  "BuildAutomation t args conf
     \<in> set (fst (for_triggers var argument (config_get config key (CfgList [])))) \<Longrightarrow>
     args = [(StdString, argument)] \<and> listed config key conf
     \<and> cfg_getitem conf CONF_TRIGGER_ID = Inr t"
  by (auto simp: for_triggers_def listed_def split: sum.splits dest: build_triggers_sound)

lemma for_triggers_complete:
  "snd (for_triggers var argument (config_get config key (CfgList []))) = None \<Longrightarrow>
   listed config key conf \<Longrightarrow>
     \<exists>t. BuildAutomation t [(StdString, argument)] conf
           \<in> set (fst (for_triggers var argument (config_get config key (CfgList []))))"
  by (auto simp: for_triggers_def listed_def split: sum.splits dest: build_triggers_complete)

lemma to_code_cases:
  obtains (no_id) "map_of config CONF_ID = None"
      "to_code config = ([], Some (KeyError CONF_ID))"
  | (stopped) var l e where "map_of config CONF_ID = Some var"
      "for_triggers var ''data''
         (config_get config CONF_ON_AUTOMATION_LOADED (CfgList [])) = (l, Some e)"
      "to_code config =
         ([NewPvariable var [], RegisterComponent var config]
          @ (case map_of config CONF_JSON_DATA of None \<Rightarrow> [] | Some d \<Rightarrow> [SetJsonData var d])
          @ l, Some e)"
  | (ran) var l f r where "map_of config CONF_ID = Some var"
      "for_triggers var ''data''
         (config_get config CONF_ON_AUTOMATION_LOADED (CfgList [])) = (l, None)"
      "for_triggers var ''error''
         (config_get config CONF_ON_JSON_ERROR (CfgList [])) = (f, r)"
      "to_code config =
         ([NewPvariable var [], RegisterComponent var config]
          @ (case map_of config CONF_JSON_DATA of None \<Rightarrow> [] | Some d \<Rightarrow> [SetJsonData var d])
          @ l @ f, r)"
proof (cases "map_of config CONF_ID")
  case None
  then show ?thesis using no_id by (simp add: to_code_def)
next
  case (Some var)
  obtain l r1 where l: "for_triggers var ''data''
      (config_get config CONF_ON_AUTOMATION_LOADED (CfgList [])) = (l, r1)"
    by (cases "for_triggers var ''data''
      (config_get config CONF_ON_AUTOMATION_LOADED (CfgList []))")
  obtain f r where f: "for_triggers var ''error''
      (config_get config CONF_ON_JSON_ERROR (CfgList [])) = (f, r)"
    by (cases "for_triggers var ''error''
      (config_get config CONF_ON_JSON_ERROR (CfgList []))")
  show ?thesis
  proof (cases r1)
    case None
    with Some l f show ?thesis using ran [of var l f r] by (simp add: to_code_def Let_def)
  next
    case (Some e)
    with \<open>map_of config CONF_ID = Some var\<close> l show ?thesis
      using stopped [of var l e] by (simp add: to_code_def Let_def)
  qed
qed

lemma to_code_set_json_data:
  "SetJsonData v d \<in> set (fst (to_code config)) \<longleftrightarrow>
     map_of config CONF_ID = Some v \<and> map_of config CONF_JSON_DATA = Some d"
proof (cases config rule: to_code_cases)
  case no_id
  then show ?thesis by simp
next
  case (stopped var l e)
  have "SetJsonData v d \<notin> set l"
    using for_triggers_no_set [of v d var "''data''"] stopped(2) by (metis fst_conv)
  with stopped show ?thesis by (auto split: option.splits)
next
  case (ran var l f r)
  have "SetJsonData v d \<notin> set l" "SetJsonData v d \<notin> set f"
    using for_triggers_no_set [of v d var "''data''"]
      for_triggers_no_set [of v d var "''error''"] ran(2,3) by (metis fst_conv)+
  with ran show ?thesis by (auto split: option.splits)
qed

lemma to_code_build_sound:
  assumes "BuildAutomation t args conf \<in> set (fst (to_code config))"
  shows "cfg_getitem conf CONF_TRIGGER_ID = Inr t
       \<and> (args = [(StdString, ''data'')] \<and> listed config CONF_ON_AUTOMATION_LOADED conf
          \<or> args = [(StdString, ''error'')] \<and> listed config CONF_ON_JSON_ERROR conf)"
proof (cases config rule: to_code_cases)
  case no_id
  with assms show ?thesis by simp
next
  case (stopped var l e)
  with assms have "BuildAutomation t args conf \<in> set l"
    by (auto split: option.splits)
  with stopped(2) show ?thesis
    using for_triggers_sound [of t args conf var "''data''" config CONF_ON_AUTOMATION_LOADED]
    by simp
next
  case (ran var l f r)
  with assms have "BuildAutomation t args conf \<in> set l \<or> BuildAutomation t args conf \<in> set f"
    by (auto split: option.splits)
  with ran(2,3) show ?thesis
    using for_triggers_sound [of t args conf var "''data''" config CONF_ON_AUTOMATION_LOADED]
      for_triggers_sound [of t args conf var "''error''" config CONF_ON_JSON_ERROR]
    by auto
qed

lemma to_code_build_complete:
  assumes "snd (to_code config) = None"
  shows "(listed config CONF_ON_AUTOMATION_LOADED conf \<longrightarrow>
            (\<exists>t. BuildAutomation t [(StdString, ''data'')] conf \<in> set (fst (to_code config))))
       \<and> (listed config CONF_ON_JSON_ERROR conf \<longrightarrow>
            (\<exists>t. BuildAutomation t [(StdString, ''error'')] conf \<in> set (fst (to_code config))))"
proof (cases config rule: to_code_cases)
  case no_id
  with assms show ?thesis by simp
next
  case (stopped var l e)
  with assms show ?thesis by simp
next
  case (ran var l f r)
  with assms have r: "r = None" by simp
  show ?thesis
    using ran r
      for_triggers_complete [of var "''data''" config CONF_ON_AUTOMATION_LOADED conf]
      for_triggers_complete [of var "''error''" config CONF_ON_JSON_ERROR conf]
    by auto
qed

lemma accepts_keys_without_optional:
  assumes "accepts_keys (CONFIG_SCHEMA COMPONENT_SCHEMA) keys"
      and "CONF_JSON_DATA \<notin> set (schema_keys COMPONENT_SCHEMA)"
  shows "accepts_keys (CONFIG_SCHEMA COMPONENT_SCHEMA) (removeAll CONF_JSON_DATA keys)"
proof -
  have req: "key \<noteq> CONF_JSON_DATA"
    if "(Required, key, v) \<in> set (CONFIG_SCHEMA COMPONENT_SCHEMA)" for key v
  proof -
    from that have "(Required, key, v) \<in> set COMPONENT_SCHEMA"
      by (auto simp: CONFIG_SCHEMA_def extend_schema_def component_entries_def
          split: if_splits)
    then have "key \<in> set (schema_keys COMPONENT_SCHEMA)"
      by (force simp: schema_keys_def)
    with assms(2) show ?thesis by auto
  qed
  from assms(1) have "list_all (\<lambda>key. key \<in> set (schema_keys (CONFIG_SCHEMA COMPONENT_SCHEMA)))
      (removeAll CONF_JSON_DATA keys)"
    by (auto simp: accepts_keys_def list_all_iff)
  moreover from assms(1) req
  have "list_all (\<lambda>(m, key, v). m \<noteq> Required \<or> key \<in> set (removeAll CONF_JSON_DATA keys))
      (CONFIG_SCHEMA COMPONENT_SCHEMA)"
    by (fastforce simp: accepts_keys_def list_all_iff)
  ultimately show ?thesis by (simp add: accepts_keys_def)
qed

lemma keys_without:
  "map fst (filter (\<lambda>(key, v). key \<noteq> k) config) = removeAll k (map fst config)"
  by (induction config) auto

lemma map_of_without:
  "map_of (filter (\<lambda>(key, v). key \<noteq> k) config) k' =
     (if k' = k then None else map_of config k')"
  by (induction config) auto

text \<open>
  C9. On a configuration that holds the component's id, \<open>to_code\<close> makes a
  \<open>set_json_data\<close> call on the component exactly when the key \<open>json_data\<close> is in the
  configuration, and with the value stored there. The schema lists the key under
  \<open>Optional\<close>: a configuration whose keys the schema accepts is still accepted once
  \<open>json_data\<close> is taken away, \<open>to_code\<close> then makes no \<open>set_json_data\<close> call at all, and
  the configuration with no key is accepted when the component schema of the library
  requires none.
\<close>

theorem set_json_data_iff_configured:
  assumes "map_of config CONF_ID = Some var"
  shows "((\<exists>data. SetJsonData var data \<in> set (fst (to_code config)))
            \<longleftrightarrow> CONF_JSON_DATA \<in> set (map fst config))
       \<and> (SetJsonData v data \<in> set (fst (to_code config))
            \<longleftrightarrow> v = var \<and> map_of config CONF_JSON_DATA = Some data)
       \<and> (accepts_keys (CONFIG_SCHEMA COMPONENT_SCHEMA) (map fst config)
            \<and> CONF_JSON_DATA \<notin> set (schema_keys COMPONENT_SCHEMA) \<longrightarrow>
          accepts_keys (CONFIG_SCHEMA COMPONENT_SCHEMA)
            (map fst (filter (\<lambda>(key, value). key \<noteq> CONF_JSON_DATA) config))
          \<and> (\<forall>v' d. SetJsonData v' d
                \<notin> set (fst (to_code (filter (\<lambda>(key, value). key \<noteq> CONF_JSON_DATA) config)))))
       \<and> (list_all (\<lambda>(m, key, validate). m \<noteq> Required) COMPONENT_SCHEMA \<longrightarrow>
            accepts_keys (CONFIG_SCHEMA COMPONENT_SCHEMA) [])"
proof (intro conjI impI)
  have "(\<exists>data. map_of config CONF_JSON_DATA = Some data)
          \<longleftrightarrow> CONF_JSON_DATA \<in> set (map fst config)"
    by (metis map_of_eq_None_iff not_None_eq set_map)
  with assms show "(\<exists>data. SetJsonData var data \<in> set (fst (to_code config)))
            \<longleftrightarrow> CONF_JSON_DATA \<in> set (map fst config)"
    by (simp add: to_code_set_json_data)
next
  from assms show "SetJsonData v data \<in> set (fst (to_code config))
            \<longleftrightarrow> v = var \<and> map_of config CONF_JSON_DATA = Some data"
    by (auto simp: to_code_set_json_data)
next
  assume "accepts_keys (CONFIG_SCHEMA COMPONENT_SCHEMA) (map fst config)
            \<and> CONF_JSON_DATA \<notin> set (schema_keys COMPONENT_SCHEMA)"
  then show "accepts_keys (CONFIG_SCHEMA COMPONENT_SCHEMA)
            (map fst (filter (\<lambda>(key, value). key \<noteq> CONF_JSON_DATA) config))"
    by (simp add: keys_without accepts_keys_without_optional)
next
  show "\<forall>v' d. SetJsonData v' d
          \<notin> set (fst (to_code (filter (\<lambda>(key, value). key \<noteq> CONF_JSON_DATA) config)))"
    by (simp add: to_code_set_json_data map_of_without)
next
  assume "list_all (\<lambda>(m, key, validate). m \<noteq> Required) COMPONENT_SCHEMA"
  then show "accepts_keys (CONFIG_SCHEMA COMPONENT_SCHEMA) []"
    by (auto simp: accepts_keys_def CONFIG_SCHEMA_def extend_schema_def component_entries_def
        list_all_iff)
qed

theorem set_json_data_iff_configured_witness:
  "fst (to_code [(''id'', CfgID ''automations'' JsonAutomationComponent),
                 (''json_data'', CfgStr ''{\"automations\": []}'')]) =
     [NewPvariable (CfgID ''automations'' JsonAutomationComponent) [],
      RegisterComponent (CfgID ''automations'' JsonAutomationComponent)
        [(''id'', CfgID ''automations'' JsonAutomationComponent),
         (''json_data'', CfgStr ''{\"automations\": []}'')],
      SetJsonData (CfgID ''automations'' JsonAutomationComponent)
        (CfgStr ''{\"automations\": []}'')]
   \<and> accepts_keys (CONFIG_SCHEMA []) [''id'', ''json_data'']
   \<and> accepts_keys (CONFIG_SCHEMA []) [''id'']
   \<and> accepts_keys (CONFIG_SCHEMA []) []
   \<and> to_code [(''id'', CfgID ''automations'' JsonAutomationComponent)] =
     ([NewPvariable (CfgID ''automations'' JsonAutomationComponent) [],
       RegisterComponent (CfgID ''automations'' JsonAutomationComponent)
         [(''id'', CfgID ''automations'' JsonAutomationComponent)]], None)"
  using set_json_data_iff_configured [of
      "[(''id'', CfgID ''automations'' JsonAutomationComponent),
        (''json_data'', CfgStr ''{\"automations\": []}'')]"
      "CfgID ''automations'' JsonAutomationComponent"
      "CfgID ''automations'' JsonAutomationComponent"
      "CfgStr ''{\"automations\": []}''" "[]"]
  by (simp add: to_code_def for_triggers_def config_get_def CONF_ID_def CONF_JSON_DATA_def
      CONF_ON_AUTOMATION_LOADED_def CONF_ON_JSON_ERROR_def CONF_TRIGGER_ID_def
      accepts_keys_def CONFIG_SCHEMA_def extend_schema_def component_entries_def schema_keys_def)

lemma load_emits_one:
  "events (snd (load decode text eng)) =
     events eng @ [case fst (load decode text eng) of
                     Loaded n \<Rightarrow> AutomationLoaded text
                   | LoadError msg \<Rightarrow> JsonError msg]"
  by (simp add: load_def split: sum.splits)

text \<open>
  C7. Every call of \<open>load\<close> sends one event, \<open>automation_loaded\<close> with the raw text on
  success and \<open>json_error\<close> with the message on failure, each with one string. Of the
  six classes the module declares, two are triggers, \<open>AutomationLoadedTrigger\<close> and
  \<open>JsonErrorTrigger\<close>, each over the one template argument \<open>std::string\<close>; the schema
  declares the trigger ids under \<open>on_automation_loaded\<close> with the first class and those
  under \<open>on_json_error\<close> with the second; and \<open>to_code\<close> builds every automation with
  one argument of type \<open>std::string\<close>, named \<open>data\<close> for a conf under
  \<open>on_automation_loaded\<close> and \<open>error\<close> for a conf under \<open>on_json_error\<close>, one for each
  conf when it raises nothing.
\<close>

theorem lifecycle_events_and_triggers:
  "events (snd (load decode text eng)) =
     events eng @ [case fst (load decode text eng) of
                     Loaded n \<Rightarrow> AutomationLoaded text
                   | LoadError msg \<Rightarrow> JsonError msg]
   \<and> filter (\<lambda>c. trigger_arguments c \<noteq> None) declared_classes
       = [AutomationLoadedTrigger, JsonErrorTrigger]
   \<and> trigger_arguments AutomationLoadedTrigger = Some [StdString]
   \<and> trigger_arguments JsonErrorTrigger = Some [StdString]
   \<and> map_of (map (\<lambda>(m, key, validate). (key, validate)) component_entries)
       CONF_ON_AUTOMATION_LOADED =
       Some (ValidateAutomation
              [(GenerateID, CONF_TRIGGER_ID, DeclareId AutomationLoadedTrigger)])
   \<and> map_of (map (\<lambda>(m, key, validate). (key, validate)) component_entries)
       CONF_ON_JSON_ERROR =
       Some (ValidateAutomation [(GenerateID, CONF_TRIGGER_ID, DeclareId JsonErrorTrigger)])
   \<and> (BuildAutomation t args conf \<in> set (fst (to_code config)) \<longrightarrow>
        cfg_getitem conf CONF_TRIGGER_ID = Inr t
        \<and> (args = [(StdString, ''data'')] \<and> listed config CONF_ON_AUTOMATION_LOADED conf
           \<or> args = [(StdString, ''error'')] \<and> listed config CONF_ON_JSON_ERROR conf))
   \<and> (snd (to_code config) = None \<longrightarrow>
        (listed config CONF_ON_AUTOMATION_LOADED conf \<longrightarrow>
           (\<exists>t. BuildAutomation t [(StdString, ''data'')] conf \<in> set (fst (to_code config))))
        \<and> (listed config CONF_ON_JSON_ERROR conf \<longrightarrow>
           (\<exists>t. BuildAutomation t [(StdString, ''error'')] conf
                  \<in> set (fst (to_code config)))))"
proof (intro conjI)
  show "events (snd (load decode text eng)) =
     events eng @ [case fst (load decode text eng) of
                     Loaded n \<Rightarrow> AutomationLoaded text
                   | LoadError msg \<Rightarrow> JsonError msg]"
    by (rule load_emits_one)
  show "filter (\<lambda>c. trigger_arguments c \<noteq> None) declared_classes
       = [AutomationLoadedTrigger, JsonErrorTrigger]"
    by (simp add: declared_classes_def JsonAutomationComponent_def AutomationLoadedTrigger_def
        JsonErrorTrigger_def LoadJsonAction_def SaveJsonAction_def ExecuteAutomationAction_def)
  show "trigger_arguments AutomationLoadedTrigger = Some [StdString]"
    by (simp add: AutomationLoadedTrigger_def)
  show "trigger_arguments JsonErrorTrigger = Some [StdString]"
    by (simp add: JsonErrorTrigger_def)
  show "map_of (map (\<lambda>(m, key, validate). (key, validate)) component_entries)
       CONF_ON_AUTOMATION_LOADED =
       Some (ValidateAutomation
              [(GenerateID, CONF_TRIGGER_ID, DeclareId AutomationLoadedTrigger)])"
    by (simp add: component_entries_def CONF_ID_def CONF_JSON_DATA_def
        CONF_ON_AUTOMATION_LOADED_def CONF_ON_JSON_ERROR_def)
  show "map_of (map (\<lambda>(m, key, validate). (key, validate)) component_entries)
       CONF_ON_JSON_ERROR =
       Some (ValidateAutomation [(GenerateID, CONF_TRIGGER_ID, DeclareId JsonErrorTrigger)])"
    by (simp add: component_entries_def CONF_ID_def CONF_JSON_DATA_def
        CONF_ON_AUTOMATION_LOADED_def CONF_ON_JSON_ERROR_def)
  show "BuildAutomation t args conf \<in> set (fst (to_code config)) \<longrightarrow>
        cfg_getitem conf CONF_TRIGGER_ID = Inr t
        \<and> (args = [(StdString, ''data'')] \<and> listed config CONF_ON_AUTOMATION_LOADED conf
           \<or> args = [(StdString, ''error'')] \<and> listed config CONF_ON_JSON_ERROR conf)"
    using to_code_build_sound by blast
  show "snd (to_code config) = None \<longrightarrow>
        (listed config CONF_ON_AUTOMATION_LOADED conf \<longrightarrow>
           (\<exists>t. BuildAutomation t [(StdString, ''data'')] conf \<in> set (fst (to_code config))))
        \<and> (listed config CONF_ON_JSON_ERROR conf \<longrightarrow>
           (\<exists>t. BuildAutomation t [(StdString, ''error'')] conf
                  \<in> set (fst (to_code config))))"
    using to_code_build_complete by blast
qed

theorem lifecycle_events_and_triggers_witness:
  "events (snd (load (\<lambda>text. Inl ''Expecting value'') ''not json''
                 \<lparr>live_table = [], events = []\<rparr>)) =
     [JsonError ''JSON syntax error: Expecting value'']
   \<and> to_code [(''id'', CfgID ''automations'' JsonAutomationComponent),
              (''on_automation_loaded'',
                 CfgList [CfgDict [(''trigger_id'', CfgID ''loaded'' AutomationLoadedTrigger)]]),
              (''on_json_error'',
                 CfgList [CfgDict [(''trigger_id'', CfgID ''failed'' JsonErrorTrigger)]])] =
     ([NewPvariable (CfgID ''automations'' JsonAutomationComponent) [],
       RegisterComponent (CfgID ''automations'' JsonAutomationComponent)
         [(''id'', CfgID ''automations'' JsonAutomationComponent),
          (''on_automation_loaded'',
             CfgList [CfgDict [(''trigger_id'', CfgID ''loaded'' AutomationLoadedTrigger)]]),
          (''on_json_error'',
             CfgList [CfgDict [(''trigger_id'', CfgID ''failed'' JsonErrorTrigger)]])],
       NewPvariable (CfgID ''loaded'' AutomationLoadedTrigger)
         [CfgID ''automations'' JsonAutomationComponent],
       BuildAutomation (CfgID ''loaded'' AutomationLoadedTrigger) [(StdString, ''data'')]
         (CfgDict [(''trigger_id'', CfgID ''loaded'' AutomationLoadedTrigger)]),
       NewPvariable (CfgID ''failed'' JsonErrorTrigger)
         [CfgID ''automations'' JsonAutomationComponent],
       BuildAutomation (CfgID ''failed'' JsonErrorTrigger) [(StdString, ''error'')]
         (CfgDict [(''trigger_id'', CfgID ''failed'' JsonErrorTrigger)])], None)"
  using lifecycle_events_and_triggers [of "\<lambda>text. Inl ''Expecting value''" "''not json''"
      "\<lparr>live_table = [], events = []\<rparr>"
      "CfgID ''loaded'' AutomationLoadedTrigger" "[(StdString, ''data'')]"
      "CfgDict [(''trigger_id'', CfgID ''loaded'' AutomationLoadedTrigger)]"
      "[(''id'', CfgID ''automations'' JsonAutomationComponent),
        (''on_automation_loaded'',
           CfgList [CfgDict [(''trigger_id'', CfgID ''loaded'' AutomationLoadedTrigger)]]),
        (''on_json_error'',
           CfgList [CfgDict [(''trigger_id'', CfgID ''failed'' JsonErrorTrigger)]])]"]
  by (simp add: to_code_def for_triggers_def config_get_def CONF_ID_def CONF_JSON_DATA_def
      CONF_ON_AUTOMATION_LOADED_def CONF_ON_JSON_ERROR_def CONF_TRIGGER_ID_def
      load_def error_message_def)

section \<open>Properties of the engine\<close>

lemma load_action_ok: "load_action e = Some a \<Longrightarrow> action_ok a"
  by (auto simp: load_action_def action_ok_def split: json.splits option.splits if_splits)

lemma load_actions_ok: "load_actions es = Some as \<Longrightarrow> list_all action_ok as"
  by (induction es arbitrary: as) (auto split: option.splits dest: load_action_ok)

lemma filter_no_kind:
  "''kind'' \<notin> set (map fst ps) \<Longrightarrow> filter (\<lambda>(key, value). key \<noteq> ''kind'') ps = ps"
  by (induction ps) auto

lemma load_serialize_action: "action_ok a \<Longrightarrow> load_action (serialize_action a) = Some a"
  by (simp add: load_action_def serialize_action_def action_ok_def filter_no_kind)

lemma load_serialize_actions:
  "list_all action_ok as \<Longrightarrow> load_actions (map serialize_action as) = Some as"
  by (induction as) (simp_all add: load_serialize_action)

lemma load_automation_ok: "load_automation e = Inr a \<Longrightarrow> automation_ok a"
  by (auto simp: load_automation_def automation_ok_def
      split: json.splits option.splits dest: load_actions_ok)

lemma load_serialize_automation:
  "automation_ok a \<Longrightarrow> load_automation (serialize_automation a) = Inr a"
  by (simp add: load_automation_def serialize_automation_def automation_ok_def
      load_serialize_actions)

lemma update_fresh: "k \<notin> set (map fst t) \<Longrightarrow> AList.update k v t = t @ [(k, v)]"
  by (induction t) auto

lemma table_ok_update:
  assumes "table_ok t" "automation_ok a"
  shows "table_ok (AList.update (automation_id a) a t)"
proof -
  have "list_all (\<lambda>(ident, a). automation_id a = ident \<and> automation_ok a)
          (AList.update (automation_id a) a t)"
    using assms by (induction t) (auto simp: table_ok_def)
  with assms show ?thesis by (simp add: table_ok_def distinct_update)
qed

lemma load_automations_ok:
  "load_automations i es t = Inr t' \<Longrightarrow> table_ok t \<Longrightarrow> table_ok t'"
  by (induction i es t rule: load_automations.induct)
     (auto split: sum.splits dest: load_automation_ok intro: table_ok_update)

lemma build_table_ok: "build_table d = Inr t \<Longrightarrow> table_ok t"
  by (auto simp: build_table_def table_ok_def split: json.splits option.splits
      dest!: load_automations_ok)

lemma load_automations_serialized:
  assumes "table_ok (acc @ t)"
  shows "load_automations i (map (\<lambda>(ident, a). serialize_automation a) t) acc = Inr (acc @ t)"
  using assms
proof (induction t arbitrary: i acc)
  case Nil
  then show ?case by simp
next
  case (Cons entry t)
  obtain ident a where entry: "entry = (ident, a)" by (cases entry)
  from Cons.prems entry have a: "automation_id a = ident" "automation_ok a"
    and fresh: "ident \<notin> set (map fst acc)"
    by (auto simp: table_ok_def)
  from Cons.prems entry have "table_ok ((acc @ [(ident, a)]) @ t)" by simp
  then have "load_automations (Suc i) (map (\<lambda>(ident, a). serialize_automation a) t)
               (acc @ [(ident, a)]) = Inr ((acc @ [(ident, a)]) @ t)"
    by (rule Cons.IH)
  with a fresh entry show ?case
    by (simp add: load_serialize_automation update_fresh)
qed

lemma build_serialized: "table_ok t \<Longrightarrow> build_table (serialize_table t) = Inr t"
  using load_automations_serialized [of "[]" t 0]
  by (simp add: build_table_def serialize_table_def)

text \<open>
  C6. Let the live table be the one a successful \<open>load\<close> has built, and let the JSON
  library read back the document it prints for that table. Then, from any state of the
  engine, loading the serialized table succeeds, returns the size of the table, and
  leaves a live table equal to it: the same entries in the same order, each with the
  same id, trigger and actions.
\<close>

theorem round_trip:
  assumes "load decode text eng = (Loaded n, eng')"
      and "decode (encode (serialize_table (live_table eng'))) =
             Inr (serialize_table (live_table eng'))"
  shows "\<exists>eng''. load decode (serialize encode (live_table eng')) eng0 =
                    (Loaded (length (live_table eng')), eng'')
              \<and> live_table eng'' = live_table eng'"
proof -
  from assms(1) have "table_ok (live_table eng')"
    by (auto simp: load_def split: sum.splits dest: build_table_ok)
  then have "build_table (serialize_table (live_table eng')) = Inr (live_table eng')"
    by (rule build_serialized)
  with assms(2) show ?thesis
    by (simp add: load_def serialize_def)
qed

theorem round_trip_witness:
  "load (\<lambda>text. if text = ''{\"automations\":[{\"id\":\"a\",\"actions\":[{\"level\":1,\"kind\":\"x\"}]}]}''
                 then Inr (JObject [(''automations'', JArray [JObject
                        [(''id'', JString ''a''),
                         (''actions'', JArray [JObject [(''level'', JInt 1),
                                                        (''kind'', JString ''x'')]])]])])
                 else Inr (JObject [(''automations'', JArray [JObject
                        [(''id'', JString ''a''), (''trigger'', JNull),
                         (''actions'', JArray [JObject [(''kind'', JString ''x''),
                                                        (''level'', JInt 1)]])]])]))
        ''{\"automations\":[{\"id\":\"a\",\"actions\":[{\"level\":1,\"kind\":\"x\"}]}]}''
        \<lparr>live_table = [], events = []\<rparr> =
     (Loaded 1,
      \<lparr>live_table =
         [(''a'', \<lparr>automation_id = ''a'', trigger = JNull,
                  actions = [\<lparr>kind = ''x'', parameters = [(''level'', JInt 1)]\<rparr>]\<rparr>)],
       events = [AutomationLoaded
         ''{\"automations\":[{\"id\":\"a\",\"actions\":[{\"level\":1,\"kind\":\"x\"}]}]}'']\<rparr>)
   \<and> (\<exists>eng''.
        load (\<lambda>text. if text = ''{\"automations\":[{\"id\":\"a\",\"actions\":[{\"level\":1,\"kind\":\"x\"}]}]}''
                 then Inr (JObject [(''automations'', JArray [JObject
                        [(''id'', JString ''a''),
                         (''actions'', JArray [JObject [(''level'', JInt 1),
                                                        (''kind'', JString ''x'')]])]])])
                 else Inr (JObject [(''automations'', JArray [JObject
                        [(''id'', JString ''a''), (''trigger'', JNull),
                         (''actions'', JArray [JObject [(''kind'', JString ''x''),
                                                        (''level'', JInt 1)]])]])]))
          (serialize
             (\<lambda>document. ''{\"automations\":[{\"id\":\"a\",\"trigger\":null,\"actions\":[{\"kind\":\"x\",\"level\":1}]}]}'')
             [(''a'', \<lparr>automation_id = ''a'', trigger = JNull,
                      actions = [\<lparr>kind = ''x'', parameters = [(''level'', JInt 1)]\<rparr>]\<rparr>)])
          \<lparr>live_table = [], events = []\<rparr> = (Loaded 1, eng'')
        \<and> live_table eng'' =
            [(''a'', \<lparr>automation_id = ''a'', trigger = JNull,
                     actions = [\<lparr>kind = ''x'', parameters = [(''level'', JInt 1)]\<rparr>]\<rparr>)])"
  using round_trip [of
      "\<lambda>text. if text = ''{\"automations\":[{\"id\":\"a\",\"actions\":[{\"level\":1,\"kind\":\"x\"}]}]}''
                 then Inr (JObject [(''automations'', JArray [JObject
                        [(''id'', JString ''a''),
                         (''actions'', JArray [JObject [(''level'', JInt 1),
                                                        (''kind'', JString ''x'')]])]])])
                 else Inr (JObject [(''automations'', JArray [JObject
                        [(''id'', JString ''a''), (''trigger'', JNull),
                         (''actions'', JArray [JObject [(''kind'', JString ''x''),
                                                        (''level'', JInt 1)]])]])])"
      "''{\"automations\":[{\"id\":\"a\",\"actions\":[{\"level\":1,\"kind\":\"x\"}]}]}''"
      "\<lparr>live_table = [], events = []\<rparr>" 1
      "\<lparr>live_table =
         [(''a'', \<lparr>automation_id = ''a'', trigger = JNull,
                  actions = [\<lparr>kind = ''x'', parameters = [(''level'', JInt 1)]\<rparr>]\<rparr>)],
       events = [AutomationLoaded
         ''{\"automations\":[{\"id\":\"a\",\"actions\":[{\"level\":1,\"kind\":\"x\"}]}]}'']\<rparr>"
      "\<lambda>document. ''{\"automations\":[{\"id\":\"a\",\"trigger\":null,\"actions\":[{\"kind\":\"x\",\"level\":1}]}]}''"
      "\<lparr>live_table = [], events = []\<rparr>"]
  by (simp add: load_def build_table_def load_automation_def load_action_def
      serialize_def serialize_table_def serialize_automation_def serialize_action_def)

end
